theory Spec2Isabelle
  imports Complex_Main "HOL-Library.Product_Lexorder" "HOL-Library.List_Lexorder"
begin

section \<open>Data model\<close>

text \<open>
  The reason codes are the members of the \<open>type\<close> enumeration of
  \<open>models/suspicious.model.js\<close>; the first six are also the members of the
  \<open>suspiciousReasons\<close> enumeration of \<open>models/ipdr.model.js\<close>.
\<close>

datatype ReasonCode =
    HIGH_NIGHT_ACTIVITY
  | UNUSUAL_DATA_VOLUME
  | MULTIPLE_DEVICES
  | LOCATION_ANOMALY
  | SHORT_DURATION_FREQUENT
  | FOREIGN_IP_COMMUNICATION
  | BURST_COMMUNICATION
  | PATTERN_DEVIATION
  | ENCRYPTION_DETECTED

datatype Severity = LOW | MEDIUM | HIGH | CRITICAL

text \<open>
  A document of the IPDR collection (\<open>IPDRSchema\<close>). Dates are milliseconds since
  the epoch, ports and volumes are integers (the routes and the CSV upload admit
  integers only), coordinates are rationals. \<open>doc_id\<close> stands for \<open>_id\<close>.
\<close>

record IPDR =
  doc_id :: nat
  privateIP :: string
  privatePort :: int
  publicIP :: string
  publicPort :: int
  destIP :: string
  destPort :: int
  phoneNumber :: string
  imei :: string
  imsi :: string
  startTime :: int
  endTime :: int
  duration :: int
  originCellID :: string
  originLat :: rat
  originLong :: rat
  coordinates :: "rat list"
  uplinkVolume :: int
  downlinkVolume :: int
  totalVolume :: int
  accessType :: string
  suspicious :: bool
  suspiciousReasons :: "ReasonCode list"
  createdAt :: int
  updatedAt :: int
  createdBy :: nat

section \<open>Classifier (\<open>checkSuspicious\<close>) and the pre-save hook\<close>

text \<open>
  \<open>Date.prototype.getHours\<close>: the hour of the day in local time. The host's time
  zone is a parameter, given as \<open>getTimezoneOffset\<close> gives it: minutes to add to
  local time to reach UTC.
\<close>

definition getHours :: "int \<Rightarrow> int \<Rightarrow> int" where
  "getHours tz t = ((t - tz * 60000) div 3600000) mod 24"

definition checkSuspicious :: "int \<Rightarrow> IPDR \<Rightarrow> IPDR" where
  "checkSuspicious tz r =
     (let reasons0 = [];
          hour = getHours tz (startTime r);
          reasons1 = (if hour \<ge> 22 \<or> hour \<le> 6
                      then reasons0 @ [HIGH_NIGHT_ACTIVITY] else reasons0);
          reasons2 = (if totalVolume r > 10485760
                      then reasons1 @ [UNUSUAL_DATA_VOLUME] else reasons1);
          reasons3 = (if duration r < 30000
                      then reasons2 @ [SHORT_DURATION_FREQUENT] else reasons2)
      in r\<lparr>suspicious := length reasons3 > 0, suspiciousReasons := reasons3\<rparr>)"

definition pre_save :: "int \<Rightarrow> int \<Rightarrow> IPDR \<Rightarrow> IPDR" where
  "pre_save tz now r =
     (let r1 = r\<lparr>updatedAt := now\<rparr>;
          r2 = r1\<lparr>totalVolume := uplinkVolume r1 + downlinkVolume r1\<rparr>;
          r3 = r2\<lparr>duration := endTime r2 - startTime r2\<rparr>;
          r4 = r3\<lparr>coordinates := [originLong r3, originLat r3]\<rparr>
      in checkSuspicious tz r4)"

section \<open>Schema validation\<close>

definition isDigit :: "char \<Rightarrow> bool" where
  "isDigit c = (c \<in> set ''0123456789'')"

text \<open>Splitting at every occurrence of a separator, as \<open>String.prototype.split\<close> does.\<close>

fun splitOn :: "char \<Rightarrow> string \<Rightarrow> string list" where
  "splitOn sep [] = [[]]"
| "splitOn sep (c # cs) =
     (if c = sep then [] # splitOn sep cs
      else (case splitOn sep cs of
              [] \<Rightarrow> [[c]]
            | p # ps \<Rightarrow> (c # p) # ps))"

text \<open>\<open>/^(?:[0-9]{1,3}\.){3}[0-9]{1,3}$/\<close>: four groups of one to three digits.\<close>

definition validIP :: "string \<Rightarrow> bool" where
  "validIP s =
     (let parts = splitOn (CHR ''.'') s
      in length parts = 4 \<and>
         list_all (\<lambda>p. 1 \<le> length p \<and> length p \<le> 3 \<and> list_all isDigit p) parts)"

text \<open>\<open>/^[0-9]{10,15}$/\<close>\<close>

definition validPhone :: "string \<Rightarrow> bool" where
  "validPhone s = (10 \<le> length s \<and> length s \<le> 15 \<and> list_all isDigit s)"

text \<open>\<open>/^[0-9]{15}$/\<close>\<close>

definition valid15 :: "string \<Rightarrow> bool" where
  "valid15 s = (length s = 15 \<and> list_all isDigit s)"

text \<open>
  The validators of \<open>IPDRSchema\<close>, in the order of the schema. A required string
  must be non-empty.
\<close>

definition validate :: "IPDR \<Rightarrow> bool" where
  "validate r =
     (validIP (privateIP r) \<and>
      1 \<le> privatePort r \<and> privatePort r \<le> 65535 \<and>
      validIP (publicIP r) \<and>
      1 \<le> publicPort r \<and> publicPort r \<le> 65535 \<and>
      validIP (destIP r) \<and>
      1 \<le> destPort r \<and> destPort r \<le> 65535 \<and>
      validPhone (phoneNumber r) \<and>
      valid15 (imei r) \<and>
      valid15 (imsi r) \<and>
      endTime r > startTime r \<and>
      originCellID r \<noteq> [] \<and>
      - 90 \<le> originLat r \<and> originLat r \<le> 90 \<and>
      - 180 \<le> originLong r \<and> originLong r \<le> 180 \<and>
      0 \<le> uplinkVolume r \<and>
      0 \<le> downlinkVolume r \<and>
      accessType r \<in> set [''2G'', ''3G'', ''4G'', ''5G''])"

section \<open>Relationship strength\<close>

text \<open>The conditional expression of \<open>getNetworkRelationships\<close> for \<open>strength\<close>.\<close>

definition strength :: "nat \<Rightarrow> string" where
  "strength frequency =
     (if frequency > 10 then ''HIGH''
      else if frequency > 5 then ''MEDIUM'' else ''LOW'')"

section \<open>Anomaly events (\<open>SuspiciousActivity\<close>)\<close>

text \<open>
  A document of the SuspiciousActivity collection, with the fields the ingestion code
  sets or the schema defaults. The random \<open>activityId\<close> and the workflow fields are
  left out.
\<close>

record SuspiciousActivity =
  sa_type :: ReasonCode
  severity :: Severity
  confidence :: rat
  sa_phoneNumber :: string
  sa_imei :: string
  sa_imsi :: string
  description :: string
  ipdrRecords :: "nat list"
  detectedAt :: int
  firstOccurrence :: int
  lastOccurrence :: int
  status :: string
  riskScore :: rat

text \<open>
  The object handed to \<open>new SuspiciousActivity(...)\<close>: the fields with a schema
  default may be absent.
\<close>

record ActivityInput =
  in_type :: ReasonCode
  in_phoneNumber :: string
  in_imei :: string
  in_imsi :: string
  in_description :: string
  in_firstOccurrence :: int
  in_lastOccurrence :: int
  in_ipdrRecords :: "nat list"
  in_severity :: "Severity option"
  in_confidence :: "rat option"
  in_riskScore :: "rat option"

text \<open>The \<open>severityMap\<close> of the \<open>riskScore\<close> default.\<close>

fun severityWeight :: "Severity \<Rightarrow> rat" where
  "severityWeight LOW = 25"
| "severityWeight MEDIUM = 50"
| "severityWeight HIGH = 75"
| "severityWeight CRITICAL = 100"

text \<open>
  Document construction: the given fields are set first, then the defaults are
  applied; the default of \<open>riskScore\<close> is a function of the document, so it reads the
  severity and the confidence the document then has.
\<close>

definition new_SuspiciousActivity :: "int \<Rightarrow> ActivityInput \<Rightarrow> SuspiciousActivity" where
  "new_SuspiciousActivity now inp =
     (let sev = (case in_severity inp of None \<Rightarrow> MEDIUM | Some s \<Rightarrow> s);
          conf = (case in_confidence inp of None \<Rightarrow> 1 / 2 | Some c \<Rightarrow> c)
      in \<lparr>sa_type = in_type inp,
          severity = sev,
          confidence = conf,
          sa_phoneNumber = in_phoneNumber inp,
          sa_imei = in_imei inp,
          sa_imsi = in_imsi inp,
          description = in_description inp,
          ipdrRecords = in_ipdrRecords inp,
          detectedAt = now,
          firstOccurrence = in_firstOccurrence inp,
          lastOccurrence = in_lastOccurrence inp,
          status = ''NEW'',
          riskScore = (case in_riskScore inp of
                         None \<Rightarrow> severityWeight sev * conf
                       | Some v \<Rightarrow> v)\<rparr>)"

text \<open>Decimal rendering of an integer, as a template literal renders one.\<close>

function showNat :: "nat \<Rightarrow> string" where
  "showNat n =
     (if n < 10 then [''0123456789'' ! n]
      else showNat (n div 10) @ [''0123456789'' ! (n mod 10)])"
  by pat_completeness auto
termination
  by (relation "measure id") auto

declare showNat.simps [simp del]

definition showInt :: "int \<Rightarrow> string" where
  "showInt i = (if i < 0 then CHR ''-'' # showNat (nat (- i)) else showNat (nat i))"

text \<open>
  \<open>getSuspiciousDescription\<close>: the lookup table has four entries, every other reason
  falls back to the fixed text.
\<close>

fun getSuspiciousDescription :: "int \<Rightarrow> ReasonCode \<Rightarrow> IPDR \<Rightarrow> string" where
  "getSuspiciousDescription tz HIGH_NIGHT_ACTIVITY record =
     ''High frequency communications during night hours ('' @
       showInt (getHours tz (startTime record)) @ '':00)''"
| "getSuspiciousDescription tz UNUSUAL_DATA_VOLUME record =
     ''Unusual data volume: '' @ showInt (totalVolume record) @ '' bytes''"
| "getSuspiciousDescription tz SHORT_DURATION_FREQUENT record =
     ''Short duration session: '' @ showInt (duration record) @ ''ms''"
| "getSuspiciousDescription tz MULTIPLE_DEVICES record =
     ''Multiple device usage detected for '' @ phoneNumber record"
| "getSuspiciousDescription tz _ record = ''Suspicious pattern detected''"

text \<open>\<open>getSeverity\<close>: \<open>severityMap[reason] || 'MEDIUM'\<close>.\<close>

fun getSeverity :: "ReasonCode \<Rightarrow> Severity" where
  "getSeverity HIGH_NIGHT_ACTIVITY = MEDIUM"
| "getSeverity UNUSUAL_DATA_VOLUME = HIGH"
| "getSeverity SHORT_DURATION_FREQUENT = HIGH"
| "getSeverity MULTIPLE_DEVICES = CRITICAL"
| "getSeverity _ = MEDIUM"

text \<open>The object literal built for one reason in \<open>createSuspiciousActivity\<close>.\<close>

definition activityFor :: "int \<Rightarrow> IPDR \<Rightarrow> ReasonCode \<Rightarrow> ActivityInput" where
  "activityFor tz record reason =
     \<lparr>in_type = reason,
      in_phoneNumber = phoneNumber record,
      in_imei = imei record,
      in_imsi = imsi record,
      in_description = getSuspiciousDescription tz reason record,
      in_firstOccurrence = startTime record,
      in_lastOccurrence = endTime record,
      in_ipdrRecords = [doc_id record],
      in_severity = Some (getSeverity reason),
      in_confidence = Some (8 / 10),
      in_riskScore = None\<rparr>"

text \<open>
  The loop of \<open>createSuspiciousActivity\<close> over the stored activities \<open>acts\<close>. The
  outcome of each \<open>activity.save()\<close> is decided by the store, here the predicate
  \<open>accepts\<close>; a rejected write throws, which leaves the loop (the \<open>try\<close> encloses
  it) and is logged.
\<close>

fun createLoop ::
  "(SuspiciousActivity \<Rightarrow> bool) \<Rightarrow> int \<Rightarrow> int \<Rightarrow> IPDR \<Rightarrow> ReasonCode list
     \<Rightarrow> SuspiciousActivity list \<Rightarrow> SuspiciousActivity list" where
  "createLoop accepts tz now record [] acts = acts"
| "createLoop accepts tz now record (reason # rest) acts =
     (let activity = new_SuspiciousActivity now (activityFor tz record reason)
      in if accepts activity
         then createLoop accepts tz now record rest (acts @ [activity])
         else acts)"

definition createSuspiciousActivity ::
  "(SuspiciousActivity \<Rightarrow> bool) \<Rightarrow> int \<Rightarrow> int \<Rightarrow> IPDR
     \<Rightarrow> SuspiciousActivity list \<Rightarrow> SuspiciousActivity list" where
  "createSuspiciousActivity accepts tz now record acts =
     createLoop accepts tz now record (suspiciousReasons record) acts"

section \<open>Ingestion: saving a record and the bulk upload\<close>

text \<open>
  The \<open>recordData\<close> object built from one CSV row. \<open>parseInt\<close> and \<open>parseFloat\<close>
  give \<open>NaN\<close> and \<open>new Date\<close> gives an invalid date on text they cannot read: this
  is \<open>None\<close>.
\<close>

record RecordData =
  rd_privateIP :: string
  rd_privatePort :: "int option"
  rd_publicIP :: string
  rd_publicPort :: "int option"
  rd_destIP :: string
  rd_destPort :: "int option"
  rd_phoneNumber :: string
  rd_imei :: string
  rd_imsi :: string
  rd_startTime :: "int option"
  rd_endTime :: "int option"
  rd_originCellID :: string
  rd_originLat :: "rat option"
  rd_originLong :: "rat option"
  rd_uplinkVolume :: "int option"
  rd_downlinkVolume :: "int option"
  rd_accessType :: string

text \<open>
  \<open>new IPDR(recordData)\<close>: \<open>NaN\<close> and invalid dates do not cast (the document then
  fails validation, here \<open>None\<close>); the defaults of the schema fill the derived fields.
\<close>

definition new_IPDR :: "nat \<Rightarrow> int \<Rightarrow> nat \<Rightarrow> RecordData \<Rightarrow> IPDR option" where
  "new_IPDR oid now uid d =
     (if rd_privatePort d = None \<or> rd_publicPort d = None \<or> rd_destPort d = None
         \<or> rd_startTime d = None \<or> rd_endTime d = None
         \<or> rd_originLat d = None \<or> rd_originLong d = None
         \<or> rd_uplinkVolume d = None \<or> rd_downlinkVolume d = None
      then None
      else Some
        \<lparr>doc_id = oid,
         privateIP = rd_privateIP d,
         privatePort = the (rd_privatePort d),
         publicIP = rd_publicIP d,
         publicPort = the (rd_publicPort d),
         destIP = rd_destIP d,
         destPort = the (rd_destPort d),
         phoneNumber = rd_phoneNumber d,
         imei = rd_imei d,
         imsi = rd_imsi d,
         startTime = the (rd_startTime d),
         endTime = the (rd_endTime d),
         duration = the (rd_endTime d) - the (rd_startTime d),
         originCellID = rd_originCellID d,
         originLat = the (rd_originLat d),
         originLong = the (rd_originLong d),
         coordinates = [the (rd_originLong d), the (rd_originLat d)],
         uplinkVolume = the (rd_uplinkVolume d),
         downlinkVolume = the (rd_downlinkVolume d),
         totalVolume = the (rd_uplinkVolume d) + the (rd_downlinkVolume d),
         accessType = rd_accessType d,
         suspicious = False,
         suspiciousReasons = [],
         createdAt = now,
         updatedAt = now,
         createdBy = uid\<rparr>)"

datatype SaveError = CastError | ValidationError

text \<open>
  \<open>record.save()\<close> of a new document: validation runs first, the pre-save hook
  after it; the result is the document as written.
\<close>

definition save :: "int \<Rightarrow> int \<Rightarrow> nat \<Rightarrow> nat \<Rightarrow> RecordData \<Rightarrow> SaveError + IPDR" where
  "save tz now oid uid d =
     (case new_IPDR oid now uid d of
        None \<Rightarrow> Inl CastError
      | Some doc \<Rightarrow>
          if validate doc then Inr (pre_save tz now doc) else Inl ValidationError)"

record ErrorEntry =
  err_row :: nat
  err_error :: SaveError
  err_data :: RecordData

record Summary =
  sm_processed :: nat
  sm_created :: nat
  sm_errors :: nat
  sm_errorDetails :: "ErrorEntry list"

text \<open>
  \<open>uploadRecords\<close> registers an \<open>async\<close> listener for the rows of the stream and a
  listener for its end. The emitter does not wait for the promise an \<open>async\<close>
  listener returns: the listener runs up to \<open>await record.save()\<close> and is resumed
  later, when the save has settled. The state holds the variables the listeners
  share (\<open>processed\<close>, \<open>created\<close>, \<open>errors\<close>), the listeners suspended at the
  \<open>await\<close> with the row each one holds, the two collections, and the response once
  it is sent.
\<close>

record UploadState =
  remaining :: "RecordData list"
  processed :: nat
  created :: nat
  errors :: "ErrorEntry list"
  pending :: "(nat \<times> RecordData) list"
  started :: nat
  store :: "IPDR list"
  activities :: "SuspiciousActivity list"
  response :: "Summary option"

text \<open>
  What the event loop runs next: the stream emits its next row (\<open>Emit\<close>), the save
  of the listener started \<open>h\<close>-th settles and that listener runs to its end
  (\<open>Settle h\<close>), or the stream, all rows emitted, emits \<open>end\<close>.
\<close>

datatype Event = Emit | Settle nat | End

fun step ::
  "(SuspiciousActivity \<Rightarrow> bool) \<Rightarrow> int \<Rightarrow> int \<Rightarrow> nat \<Rightarrow> UploadState \<Rightarrow> Event \<Rightarrow> UploadState" where
  "step accepts tz now uid s Emit =
     (case remaining s of
        [] \<Rightarrow> s
      | d # ds \<Rightarrow>
          s\<lparr>remaining := ds,
            processed := processed s + 1,
            pending := pending s @ [(started s, d)],
            started := started s + 1\<rparr>)"
| "step accepts tz now uid s (Settle h) =
     (case map_of (pending s) h of
        None \<Rightarrow> s
      | Some d \<Rightarrow>
          (let s1 = s\<lparr>pending := filter (\<lambda>p. fst p \<noteq> h) (pending s)\<rparr>
           in case save tz now h uid d of
                Inl e \<Rightarrow>
                  s1\<lparr>errors := errors s1 @
                      [\<lparr>err_row = processed s1, err_error = e, err_data = d\<rparr>]\<rparr>
              | Inr record \<Rightarrow>
                  (let s2 = s1\<lparr>store := store s1 @ [record], created := created s1 + 1\<rparr>
                   in if suspicious record
                      then s2\<lparr>activities :=
                              createSuspiciousActivity accepts tz now record (activities s2)\<rparr>
                      else s2)))"
| "step accepts tz now uid s End =
     (if remaining s = [] \<and> response s = None
      then s\<lparr>response := Some
              \<lparr>sm_processed = processed s,
               sm_created = created s,
               sm_errors = length (errors s),
               sm_errorDetails = take 10 (errors s)\<rparr>\<rparr>
      else s)"

definition initialState :: "RecordData list \<Rightarrow> UploadState" where
  "initialState rows =
     \<lparr>remaining = rows, processed = 0, created = 0, errors = [], pending = [],
      started = 0, store = [], activities = [], response = None\<rparr>"

datatype UploadError = NoFileUploaded

text \<open>
  \<open>uploadRecords\<close> on the rows of the uploaded file (\<open>None\<close>: no file in the
  request), run along a sequence of events.
\<close>

definition uploadRecords ::
  "(SuspiciousActivity \<Rightarrow> bool) \<Rightarrow> int \<Rightarrow> int \<Rightarrow> nat \<Rightarrow> RecordData list option
     \<Rightarrow> Event list \<Rightarrow> UploadError + UploadState" where
  "uploadRecords accepts tz now uid file events =
     (case file of
        None \<Rightarrow> Inl NoFileUploaded
      | Some rows \<Rightarrow> Inr (foldl (step accepts tz now uid) (initialState rows) events))"

text \<open>The summary of the response, if one was sent.\<close>

definition uploadSummary ::
  "(SuspiciousActivity \<Rightarrow> bool) \<Rightarrow> int \<Rightarrow> int \<Rightarrow> nat \<Rightarrow> RecordData list option
     \<Rightarrow> Event list \<Rightarrow> UploadError + Summary option" where
  "uploadSummary accepts tz now uid file events =
     (case uploadRecords accepts tz now uid file events of
        Inl e \<Rightarrow> Inl e
      | Inr s \<Rightarrow> Inr (response s))"

text \<open>
  The order in which the events come when every listener is resumed before the next
  row is emitted.
\<close>

definition sequentialEvents :: "nat \<Rightarrow> Event list" where
  "sequentialEvents n = concat (map (\<lambda>h. [Emit, Settle h]) [0..<n]) @ [End]"

text \<open>
  The order in which they come when the rows are emitted one after the other, in one
  run of the parser, before any save has settled.
\<close>

definition burstEvents :: "nat \<Rightarrow> Event list" where
  "burstEvents n = replicate n Emit @ map Settle [0..<n] @ [End]"

section \<open>Aggregation pipelines\<close>

text \<open>
  The collections are lists: the order of a list is the order in which the store
  yields its documents, which is any order. A \<open>$group\<close> stage yields one document
  per key; the store leaves their order open, the model yields them in the order in
  which the keys are first met. A \<open>$sort\<close> stage is a stable sort on its keys, so
  documents equal on every sort key stay in the order in which the stage received them.
\<close>

definition firstSeenKeys :: "'a list \<Rightarrow> 'a list" where
  "firstSeenKeys ks = rev (remdups (rev ks))"

datatype QueryError = PhoneNumberRequired | LimitNotPositive | TypeError

text \<open>\<open>$limit\<close> takes a positive number.\<close>

definition limitStage :: "int \<Rightarrow> 'a list \<Rightarrow> QueryError + 'a list" where
  "limitStage n xs = (if n \<le> 0 then Inl LimitNotPositive else Inr (take (nat n) xs))"

text \<open>
  \<open>startDate.setDate(startDate.getDate() - days)\<close> on the current time: the same
  time of day, \<open>days\<close> days earlier (a time zone with a fixed offset).
\<close>

definition startDateOf :: "int \<Rightarrow> int \<Rightarrow> int" where
  "startDateOf now days = now - days * 86400000"

subsection \<open>Network relationships\<close>

record Connection =
  conn_id :: string
  frequency :: nat
  totalDuration :: int
  totalDataExchange :: int
  firstContact :: int
  lastContact :: int
  conn_suspicious :: bool

record Relationship =
  aParty :: string
  rel_destIP :: string
  bParties :: "string list"
  rel_frequency :: nat
  rel_totalDuration :: int
  dataExchanged :: int
  rel_firstContact :: int
  rel_lastContact :: int
  rel_strength :: string
  rel_suspicious :: bool



text \<open>The body of the loop over the connections.\<close>

definition relationshipOf :: "IPDR list \<Rightarrow> string \<Rightarrow> Connection \<Rightarrow> Relationship" where
  "relationshipOf db phone conn =
     (let relatedPhones =
            firstSeenKeys (map phoneNumber
              (filter (\<lambda>r. destIP r = conn_id conn \<and> phoneNumber r \<noteq> phone) db))
      in \<lparr>aParty = phone,
          rel_destIP = conn_id conn,
          bParties = take 5 relatedPhones,
          rel_frequency = frequency conn,
          rel_totalDuration = totalDuration conn,
          dataExchanged = totalDataExchange conn,
          rel_firstContact = firstContact conn,
          rel_lastContact = lastContact conn,
          rel_strength = strength (frequency conn),
          rel_suspicious = conn_suspicious conn\<rparr>)"


subsection \<open>Top communicators\<close>

record Communicator =
  tc_id :: string
  totalSessions :: nat
  totalDataVolume :: int
  suspiciousCount :: nat
  uniqueDestinations :: nat
  accessTypes :: "string list"
  firstSeen :: int
  lastSeen :: int
  tc_riskScore :: rat

text \<open>The \<open>$group\<close> accumulators and the \<open>$project\<close> stage, over one group.\<close>

definition communicatorOf :: "string \<Rightarrow> IPDR list \<Rightarrow> Communicator" where
  "communicatorOf phone grp =
     (let sessions = length grp;
          flagged = length (filter suspicious grp)
      in \<lparr>tc_id = phone,
          totalSessions = sessions,
          totalDataVolume = sum_list (map totalVolume grp),
          suspiciousCount = flagged,
          uniqueDestinations = length (remdups (map destIP grp)),
          accessTypes = firstSeenKeys (map accessType grp),
          firstSeen = Min (set (map startTime grp)),
          lastSeen = Max (set (map startTime grp)),
          tc_riskScore = of_nat flagged * 10 + of_nat sessions / 100\<rparr>)"

definition communicatorGroups :: "IPDR list \<Rightarrow> int \<Rightarrow> Communicator list" where
  "communicatorGroups db startDate =
     (let matched = filter (\<lambda>r. startTime r \<ge> startDate) db
      in map (\<lambda>phone. communicatorOf phone (filter (\<lambda>r. phoneNumber r = phone) matched))
             (firstSeenKeys (map phoneNumber matched)))"

text \<open>\<open>parseInt(q) || dflt\<close>: \<open>None\<close> is an absent or unreadable parameter.\<close>

definition parseIntOr :: "int option \<Rightarrow> int \<Rightarrow> int" where
  "parseIntOr q dflt = (case q of None \<Rightarrow> dflt | Some n \<Rightarrow> if n = 0 then dflt else n)"

definition getTopCommunicators ::
  "IPDR list \<Rightarrow> int \<Rightarrow> int option \<Rightarrow> int option \<Rightarrow> QueryError + Communicator list" where
  "getTopCommunicators db now limitQ daysQ =
     (let limit = parseIntOr limitQ 10;
          days = parseIntOr daysQ 30;
          startDate = startDateOf now days
      in limitStage limit
           (sort_key (\<lambda>c. (- tc_riskScore c, - int (totalSessions c)))
              (communicatorGroups db startDate)))"

subsection \<open>Activity trends\<close>

text \<open>
  The date operators of the store, in UTC on the proleptic Gregorian calendar:
  \<open>$year\<close>, \<open>$month\<close>, \<open>$dayOfMonth\<close>, \<open>$hour\<close>, and \<open>$week\<close> (weeks begin on
  Sunday, the days before the first Sunday of a year are in week 0).
\<close>

definition epochDay :: "int \<Rightarrow> int" where
  "epochDay t = t div 86400000"

definition civil :: "int \<Rightarrow> int \<times> int \<times> int" where
  "civil z0 =
     (let z = z0 + 719468;
          era = z div 146097;
          doe = z mod 146097;
          yoe = (doe - doe div 1460 + doe div 36524 - doe div 146096) div 365;
          y = yoe + era * 400;
          doy = doe - (365 * yoe + yoe div 4 - yoe div 100);
          mp = (5 * doy + 2) div 153;
          d = doy - (153 * mp + 2) div 5 + 1;
          m = (if mp < 10 then mp + 3 else mp - 9)
      in (if m \<le> 2 then y + 1 else y, m, d))"

definition yearOf :: "int \<Rightarrow> int" where
  "yearOf t = fst (civil (epochDay t))"

definition monthOf :: "int \<Rightarrow> int" where
  "monthOf t = fst (snd (civil (epochDay t)))"

definition dayOfMonth :: "int \<Rightarrow> int" where
  "dayOfMonth t = snd (snd (civil (epochDay t)))"

definition hourOf :: "int \<Rightarrow> int" where
  "hourOf t = (t div 3600000) mod 24"

definition dayOfWeek :: "int \<Rightarrow> int" where
  "dayOfWeek t = (epochDay t + 4) mod 7"

definition isLeap :: "int \<Rightarrow> bool" where
  "isLeap y = (y mod 4 = 0 \<and> (y mod 100 \<noteq> 0 \<or> y mod 400 = 0))"

definition dayOfYear :: "int \<Rightarrow> int" where
  "dayOfYear t =
     [0, 31, 59, 90, 120, 151, 181, 212, 243, 273, 304, 334] ! nat (monthOf t - 1)
       + dayOfMonth t
       + (if isLeap (yearOf t) \<and> monthOf t > 2 then 1 else 0)"

definition weekOf :: "int \<Rightarrow> int" where
  "weekOf t = (dayOfYear t - 1 + 7 - dayOfWeek t) div 7"

text \<open>The \<open>switch\<close> on the period: the values of the fields of \<open>groupBy\<close>, in order.\<close>

definition groupBy :: "string \<Rightarrow> int \<Rightarrow> int list" where
  "groupBy period t =
     (if period = ''hourly'' then [yearOf t, monthOf t, dayOfMonth t, hourOf t]
      else if period = ''daily'' then [yearOf t, monthOf t, dayOfMonth t]
      else if period = ''weekly'' then [yearOf t, weekOf t]
      else [yearOf t, monthOf t])"

record Trend =
  trend_id :: "int list"
  trend_count :: nat
  dataVolume :: int
  trend_suspiciousCount :: nat

definition trendOf :: "int list \<Rightarrow> IPDR list \<Rightarrow> Trend" where
  "trendOf key grp =
     \<lparr>trend_id = key,
      trend_count = length grp,
      dataVolume = sum_list (map totalVolume grp),
      trend_suspiciousCount = length (filter suspicious grp)\<rparr>"

text \<open>
  \<open>getActivityTrends\<close>. Documents with the same fields in \<open>_id\<close> compare field by
  field, in the order of the fields.
\<close>

definition getActivityTrends ::
  "IPDR list \<Rightarrow> int \<Rightarrow> string option \<Rightarrow> int option \<Rightarrow> Trend list" where
  "getActivityTrends db now periodQ daysQ =
     (let period = (case periodQ of None \<Rightarrow> ''daily'' | Some p \<Rightarrow> p);
          days = (case daysQ of None \<Rightarrow> 30 | Some d \<Rightarrow> d);
          startDate = startDateOf now days;
          matched = filter (\<lambda>r. startTime r \<ge> startDate) db;
          key = (\<lambda>r. groupBy period (startTime r));
          groups = map (\<lambda>k. trendOf k (filter (\<lambda>r. key r = k) matched))
                       (firstSeenKeys (map key matched))
      in sort_key trend_id groups)"

subsection \<open>Dashboard\<close>

record RecentActivity =
  ra_phoneNumber :: string
  ra_timestamp :: int
  ra_accessType :: string
  ra_suspicious :: bool

record DashboardStats =
  ds_totalRecords :: nat
  ds_uniquePhoneNumbers :: nat
  ds_uniqueIPs :: nat
  ds_totalDataVolume :: string
  ds_suspiciousActivities :: nat
  ds_activeInvestigations :: nat
  ds_accessTypeBreakdown :: "(string \<times> nat) list"
  ds_recentActivity :: "RecentActivity list"
  ds_dateRange :: string

text \<open>
  \<open>Number.prototype.toFixed(2)\<close> of a non-negative number: the nearest multiple of
  a hundredth, the larger one of two equally near (on the exact quotient; a binary
  floating-point quotient may fall on the other side of such a tie).
\<close>

definition toFixed2 :: "rat \<Rightarrow> string" where
  "toFixed2 q =
     (let n = nat \<lfloor>q * 100 + 1 / 2\<rfloor>
      in showNat (n div 100) @ ''.'' @
         [''0123456789'' ! ((n mod 100) div 10), ''0123456789'' ! (n mod 10)])"

definition formatDataVolume :: "int \<Rightarrow> string" where
  "formatDataVolume bytes =
     (if bytes > 1000000000 then toFixed2 (of_int bytes / 1000000000) @ '' GB''
      else if bytes > 1000000 then toFixed2 (of_int bytes / 1000000) @ '' MB''
      else if bytes > 1000 then toFixed2 (of_int bytes / 1000) @ '' KB''
      else showInt bytes @ '' B'')"

text \<open>
  A \<open>$group\<close> stage with \<open>_id: null\<close> yields one document when some document
  reaches it and none otherwise.
\<close>

definition groupAll :: "('a list \<Rightarrow> 'b) \<Rightarrow> 'a list \<Rightarrow> 'b list" where
  "groupAll acc xs = (if xs = [] then [] else [acc xs])"

text \<open>Reading element 0 of an array and then a property of it: a \<open>TypeError\<close> when
  the array is empty.\<close>

definition elem0 :: "'a list \<Rightarrow> QueryError + 'a" where
  "elem0 xs = (case xs of [] \<Rightarrow> Inl TypeError | x # _ \<Rightarrow> Inr x)"

text \<open>
  \<open>getDashboardStats\<close> over the three collections (records, anomaly events, the
  statuses of the investigations). \<open>dateRangeQ\<close> is the query parameter, a decimal
  numeral when present.
\<close>

definition getDashboardStats ::
  "IPDR list \<Rightarrow> SuspiciousActivity list \<Rightarrow> string list \<Rightarrow> int \<Rightarrow> nat option
     \<Rightarrow> QueryError + DashboardStats" where
  "getDashboardStats db acts invs now dateRangeQ =
     (let dateRange = (case dateRangeQ of None \<Rightarrow> 30 | Some d \<Rightarrow> d);
          startDate = startDateOf now (int dateRange);
          matched = filter (\<lambda>r. createdAt r \<ge> startDate) db;
          totalRecords = length matched;
          uniquePhoneNumbers = remdups (map phoneNumber matched);
          uniqueIPs = groupAll (\<lambda>g. (remdups (map privateIP g),
                                      remdups (map publicIP g),
                                      remdups (map destIP g))) matched;
          totalDataVolume = groupAll (\<lambda>g. sum_list (map totalVolume g)) matched;
          suspiciousActivities =
            length (filter (\<lambda>a. detectedAt a \<ge> startDate \<and> status a \<noteq> ''RESOLVED'') acts);
          activeInvestigations =
            length (filter (\<lambda>st. st \<in> set [''OPEN'', ''ACTIVE'']) invs);
          accessTypeBreakdown =
            map (\<lambda>k. (k, length (filter (\<lambda>r. accessType r = k) matched)))
                (firstSeenKeys (map accessType matched));
          recentActivity = take 10 (sort_key (\<lambda>r. - createdAt r) matched)
      in case (if length uniqueIPs > 0
               then (case elem0 uniqueIPs of
                       Inl e \<Rightarrow> Inl e
                     | Inr (privateIPs, publicIPs, destIPs) \<Rightarrow>
                         Inr (remdups (privateIPs @ publicIPs @ destIPs)))
               else Inr []) of
           Inl e \<Rightarrow> Inl e
         | Inr allIPs \<Rightarrow>
            (case (if length totalDataVolume > 0 then elem0 totalDataVolume else Inr 0) of
               Inl e \<Rightarrow> Inl e
             | Inr bytes \<Rightarrow>
                 Inr \<lparr>ds_totalRecords = totalRecords,
                      ds_uniquePhoneNumbers = length uniquePhoneNumbers,
                      ds_uniqueIPs = length allIPs,
                      ds_totalDataVolume = formatDataVolume bytes,
                      ds_suspiciousActivities = suspiciousActivities,
                      ds_activeInvestigations = activeInvestigations,
                      ds_accessTypeBreakdown = accessTypeBreakdown,
                      ds_recentActivity =
                        map (\<lambda>record. \<lparr>ra_phoneNumber = phoneNumber record,
                                        ra_timestamp = startTime record,
                                        ra_accessType = accessType record,
                                        ra_suspicious = suspicious record\<rparr>)
                            recentActivity,
                      ds_dateRange = showNat dateRange @ '' days''\<rparr>))"

section \<open>Sample data\<close>

text \<open>Concrete rows, records and stores on which the properties below are run.\<close>

definition acceptAll :: "SuspiciousActivity \<Rightarrow> bool" where
  "acceptAll a = True"

definition goodRow :: RecordData where
  "goodRow =
     \<lparr>rd_privateIP = ''10.0.0.1'', rd_privatePort = Some 5000,
      rd_publicIP = ''203.0.113.7'', rd_publicPort = Some 40000,
      rd_destIP = ''198.51.100.9'', rd_destPort = Some 443,
      rd_phoneNumber = ''9876543210'',
      rd_imei = ''123456789012345'', rd_imsi = ''404685505601234'',
      rd_startTime = Some 1700043200000, rd_endTime = Some 1700043260000,
      rd_originCellID = ''CELL-1'',
      rd_originLat = Some (1297 / 100), rd_originLong = Some (7759 / 100),
      rd_uplinkVolume = Some 1000, rd_downlinkVolume = Some 2000,
      rd_accessType = ''4G''\<rparr>"

text \<open>A row with a port outside the range of the schema.\<close>

definition badRow :: RecordData where
  "badRow = goodRow\<lparr>rd_privatePort := Some 0\<rparr>"

text \<open>A row of a ten-second session at 22:13 UTC that moves more than 10 MiB.\<close>

definition nightRow :: RecordData where
  "nightRow = goodRow\<lparr>rd_startTime := Some 1700000000000,
                       rd_endTime := Some 1700000010000,
                       rd_uplinkVolume := Some 10485761\<rparr>"

definition nightRecord :: IPDR where
  "nightRecord = pre_save 0 1700050000000 (the (new_IPDR 0 1700050000000 1 nightRow))"

text \<open>
  A stored one-minute session of 3000 bytes, ingested one hour after it started.
\<close>

definition sampleSession :: "nat \<Rightarrow> string \<Rightarrow> string \<Rightarrow> int \<Rightarrow> bool \<Rightarrow> IPDR" where
  "sampleSession i phone dest t flagged =
     \<lparr>doc_id = i, privateIP = ''10.0.0.1'', privatePort = 5000,
      publicIP = ''203.0.113.7'', publicPort = 40000,
      destIP = dest, destPort = 443, phoneNumber = phone,
      imei = ''123456789012345'', imsi = ''404685505601234'',
      startTime = t, endTime = t + 60000, duration = 60000,
      originCellID = ''CELL-1'', originLat = 1297 / 100, originLong = 7759 / 100,
      coordinates = [7759 / 100, 1297 / 100],
      uplinkVolume = 1000, downlinkVolume = 2000, totalVolume = 3000,
      accessType = ''4G'', suspicious = flagged, suspiciousReasons = [],
      createdAt = t + 3600000, updatedAt = t + 3600000, createdBy = 1\<rparr>"

text \<open>Subject 9000000001 with five sessions, subject 9000000002 with three, one flagged.\<close>

definition rankStore :: "IPDR list" where
  "rankStore =
     [sampleSession 0 ''9000000001'' ''8.8.8.8'' 1700043200000 False,
      sampleSession 1 ''9000000001'' ''8.8.8.8'' 1700043300000 False,
      sampleSession 2 ''9000000001'' ''8.8.8.8'' 1700043400000 False,
      sampleSession 3 ''9000000001'' ''8.8.8.8'' 1700043500000 False,
      sampleSession 4 ''9000000001'' ''8.8.8.8'' 1700043600000 False,
      sampleSession 5 ''9000000002'' ''8.8.8.8'' 1700043700000 True,
      sampleSession 6 ''9000000002'' ''8.8.8.8'' 1700043800000 False,
      sampleSession 7 ''9000000002'' ''8.8.8.8'' 1700043900000 False]"




section \<open>Classification and derived fields\<close>

lemma getHours_range: "0 \<le> getHours tz t \<and> getHours tz t < 24"
  by (simp add: getHours_def)

text \<open>
  C1. The reasons \<open>checkSuspicious\<close> stores are exactly those of the three rules whose
  condition holds: night activity iff the local hour of the start time is in [22,24) or
  [0,6], unusual volume iff the total volume is above 10485760, short duration iff the
  duration is below 30000; no other reason and no reason twice. The flag is set iff the
  reason list is not empty. A total volume of 10485761 is tagged and one of 10485760 is
  not; a start at hour 23 is tagged as night activity and one at hour 10 is not.
\<close>

theorem checkSuspicious_reasons:
  "(HIGH_NIGHT_ACTIVITY \<in> set (suspiciousReasons (checkSuspicious tz r)))
      = (22 \<le> getHours tz (startTime r) \<and> getHours tz (startTime r) < 24
         \<or> 0 \<le> getHours tz (startTime r) \<and> getHours tz (startTime r) \<le> 6)
   \<and> (UNUSUAL_DATA_VOLUME \<in> set (suspiciousReasons (checkSuspicious tz r)))
      = (totalVolume r > 10485760)
   \<and> (SHORT_DURATION_FREQUENT \<in> set (suspiciousReasons (checkSuspicious tz r)))
      = (duration r < 30000)
   \<and> set (suspiciousReasons (checkSuspicious tz r))
      \<subseteq> {HIGH_NIGHT_ACTIVITY, UNUSUAL_DATA_VOLUME, SHORT_DURATION_FREQUENT}
   \<and> distinct (suspiciousReasons (checkSuspicious tz r))
   \<and> suspicious (checkSuspicious tz r) = (suspiciousReasons (checkSuspicious tz r) \<noteq> [])
   \<and> UNUSUAL_DATA_VOLUME
        \<in> set (suspiciousReasons (checkSuspicious tz (r\<lparr>totalVolume := 10485761\<rparr>)))
   \<and> UNUSUAL_DATA_VOLUME
        \<notin> set (suspiciousReasons (checkSuspicious tz (r\<lparr>totalVolume := 10485760\<rparr>)))
   \<and> (getHours tz (startTime r) = 23 \<longrightarrow>
        HIGH_NIGHT_ACTIVITY \<in> set (suspiciousReasons (checkSuspicious tz r)))
   \<and> (getHours tz (startTime r) = 10 \<longrightarrow>
        HIGH_NIGHT_ACTIVITY \<notin> set (suspiciousReasons (checkSuspicious tz r)))"
  using getHours_range [of tz "startTime r"]
  by (auto simp add: checkSuspicious_def Let_def)

text \<open>
  The same on two stored sessions, one starting at 23:13 UTC and one at 10:13 UTC, on a
  host in UTC.
\<close>

theorem checkSuspicious_reasons_witness:
  "getHours 0 (startTime (sampleSession 0 ''9000000001'' ''8.8.8.8'' 1700003600000 False)) = 23
   \<and> HIGH_NIGHT_ACTIVITY \<in> set (suspiciousReasons (checkSuspicious 0
         (sampleSession 0 ''9000000001'' ''8.8.8.8'' 1700003600000 False)))
   \<and> getHours 0 (startTime (sampleSession 1 ''9000000001'' ''8.8.8.8'' 1700043200000 False)) = 10
   \<and> HIGH_NIGHT_ACTIVITY \<notin> set (suspiciousReasons (checkSuspicious 0
         (sampleSession 1 ''9000000001'' ''8.8.8.8'' 1700043200000 False)))"
proof -
  have night:
    "getHours 0 (startTime (sampleSession 0 ''9000000001'' ''8.8.8.8'' 1700003600000 False)) = 23"
    by (simp add: getHours_def sampleSession_def)
  have day:
    "getHours 0 (startTime (sampleSession 1 ''9000000001'' ''8.8.8.8'' 1700043200000 False)) = 10"
    by (simp add: getHours_def sampleSession_def)
  from night day
    checkSuspicious_reasons [of 0 "sampleSession 0 ''9000000001'' ''8.8.8.8'' 1700003600000 False"]
    checkSuspicious_reasons [of 0 "sampleSession 1 ''9000000001'' ''8.8.8.8'' 1700043200000 False"]
  show ?thesis by blast
qed

text \<open>
  C3. The pre-save hook recomputes the derived fields from the input fields of the
  document, whatever the derived fields held before: total volume, duration and
  coordinates; the input fields are unchanged. Classification runs on the recomputed
  values: the reasons and the flag of the saved document are those of the sum of the
  volumes and of the difference of the times. A document that passes validation has a
  positive duration after the hook.
\<close>

theorem pre_save_derived:
  "totalVolume (pre_save tz now r) = uplinkVolume r + downlinkVolume r
   \<and> duration (pre_save tz now r) = endTime r - startTime r
   \<and> coordinates (pre_save tz now r) = [originLong r, originLat r]
   \<and> uplinkVolume (pre_save tz now r) = uplinkVolume r
   \<and> downlinkVolume (pre_save tz now r) = downlinkVolume r
   \<and> startTime (pre_save tz now r) = startTime r
   \<and> endTime (pre_save tz now r) = endTime r
   \<and> originLong (pre_save tz now r) = originLong r
   \<and> originLat (pre_save tz now r) = originLat r
   \<and> (UNUSUAL_DATA_VOLUME \<in> set (suspiciousReasons (pre_save tz now r)))
       = (uplinkVolume r + downlinkVolume r > 10485760)
   \<and> (SHORT_DURATION_FREQUENT \<in> set (suspiciousReasons (pre_save tz now r)))
       = (endTime r - startTime r < 30000)
   \<and> (HIGH_NIGHT_ACTIVITY \<in> set (suspiciousReasons (pre_save tz now r)))
       = (getHours tz (startTime r) \<ge> 22 \<or> getHours tz (startTime r) \<le> 6)
   \<and> suspicious (pre_save tz now r)
       = (getHours tz (startTime r) \<ge> 22 \<or> getHours tz (startTime r) \<le> 6
          \<or> uplinkVolume r + downlinkVolume r > 10485760
          \<or> endTime r - startTime r < 30000)
   \<and> (validate r \<longrightarrow> duration (pre_save tz now r) > 0)"
  by (auto simp add: pre_save_def checkSuspicious_def Let_def validate_def)

text \<open>A valid stored session, saved again, has a positive duration.\<close>

theorem pre_save_derived_witness:
  "validate (sampleSession 0 ''9000000001'' ''8.8.8.8'' 1700043200000 False)
   \<and> duration (pre_save 0 1700050000000
        (sampleSession 0 ''9000000001'' ''8.8.8.8'' 1700043200000 False)) > 0"
proof -
  have valid: "validate (sampleSession 0 ''9000000001'' ''8.8.8.8'' 1700043200000 False)"
    by code_simp
  from valid
    pre_save_derived [of 0 1700050000000
      "sampleSession 0 ''9000000001'' ''8.8.8.8'' 1700043200000 False"]
  show ?thesis by blast
qed

section \<open>Anomaly events\<close>







text \<open>
  C5. When no risk score is given, the risk score of a new event is the weight of its
  severity times its confidence, with the weights 25, 50, 75 and 100 for LOW, MEDIUM,
  HIGH and CRITICAL. It depends on the severity and the confidence alone: two inputs
  that agree on both get the same risk score, whatever their other fields and the time.
\<close>

theorem riskScore_default:
  "riskScore (new_SuspiciousActivity now (inp\<lparr>in_riskScore := None\<rparr>))
     = severityWeight (severity (new_SuspiciousActivity now (inp\<lparr>in_riskScore := None\<rparr>)))
       * confidence (new_SuspiciousActivity now (inp\<lparr>in_riskScore := None\<rparr>))
   \<and> severityWeight LOW = 25 \<and> severityWeight MEDIUM = 50
   \<and> severityWeight HIGH = 75 \<and> severityWeight CRITICAL = 100
   \<and> (in_severity a = in_severity b \<and> in_confidence a = in_confidence b
        \<and> in_riskScore a = None \<and> in_riskScore b = None
      \<longrightarrow> riskScore (new_SuspiciousActivity now1 a) = riskScore (new_SuspiciousActivity now2 b))"
  by (simp add: new_SuspiciousActivity_def Let_def)

text \<open>
  Two inputs for the unusual-volume reason, built from different records at different
  times, both get the risk score 60.
\<close>

theorem riskScore_default_witness:
  "in_severity (activityFor 0 nightRecord UNUSUAL_DATA_VOLUME)
     = in_severity (activityFor 0
         (sampleSession 3 ''9000000002'' ''9.9.9.9'' 1700043200000 True) UNUSUAL_DATA_VOLUME)
   \<and> in_confidence (activityFor 0 nightRecord UNUSUAL_DATA_VOLUME)
     = in_confidence (activityFor 0
         (sampleSession 3 ''9000000002'' ''9.9.9.9'' 1700043200000 True) UNUSUAL_DATA_VOLUME)
   \<and> in_riskScore (activityFor 0 nightRecord UNUSUAL_DATA_VOLUME) = None
   \<and> in_riskScore (activityFor 0
         (sampleSession 3 ''9000000002'' ''9.9.9.9'' 1700043200000 True) UNUSUAL_DATA_VOLUME) = None
   \<and> riskScore (new_SuspiciousActivity 1 (activityFor 0 nightRecord UNUSUAL_DATA_VOLUME)) = 60
   \<and> riskScore (new_SuspiciousActivity 2 (activityFor 0
         (sampleSession 3 ''9000000002'' ''9.9.9.9'' 1700043200000 True) UNUSUAL_DATA_VOLUME)) = 60"
  using riskScore_default [of 1 "activityFor 0 nightRecord UNUSUAL_DATA_VOLUME"
      "activityFor 0 nightRecord UNUSUAL_DATA_VOLUME"
      "activityFor 0 (sampleSession 3 ''9000000002'' ''9.9.9.9'' 1700043200000 True)
         UNUSUAL_DATA_VOLUME" 1 2]
  by (simp add: activityFor_def new_SuspiciousActivity_def Let_def)

section \<open>Bulk upload\<close>

text \<open>
  C2. A file of two rows, the first with port 0 and the second valid, both emitted
  before the first save settles: the response counts two rows processed, one created
  and one error, and the one error entry, which is for the first row, carries row
  number 2, the value the shared counter has when the listener of the first row is
  resumed. When the stream ends before the saves settle, the response counts no record
  created and no error.
\<close>

theorem uploadRecords_row_read_after_await:
  "uploadSummary acceptAll 0 1700050000000 1 (Some [badRow, goodRow]) (burstEvents 2)
     = Inr (Some \<lparr>sm_processed = 2, sm_created = 1, sm_errors = 1,
                   sm_errorDetails =
                     [\<lparr>err_row = 2, err_error = ValidationError, err_data = badRow\<rparr>]\<rparr>)
   \<and> uploadSummary acceptAll 0 1700050000000 1 (Some [badRow, goodRow]) [Emit, Emit, End]
     = Inr (Some \<lparr>sm_processed = 2, sm_created = 0, sm_errors = 0, sm_errorDetails = []\<rparr>)"
  by code_simp

text \<open>
  On the same file, when each listener is resumed before the next row is emitted, the
  error entry carries row number 1.
\<close>

lemma uploadRecords_sequential_example:
  "uploadSummary acceptAll 0 1700050000000 1 (Some [badRow, goodRow]) (sequentialEvents 2)
     = Inr (Some \<lparr>sm_processed = 2, sm_created = 1, sm_errors = 1,
                   sm_errorDetails =
                     [\<lparr>err_row = 1, err_error = ValidationError, err_data = badRow\<rparr>]\<rparr>)"
  by code_simp

section \<open>Grouping and sorting\<close>

lemma firstSeenKeys_set: "set (firstSeenKeys ks) = set ks"
  by (simp add: firstSeenKeys_def)

lemma firstSeenKeys_distinct: "distinct (firstSeenKeys ks)"
  by (simp add: firstSeenKeys_def)




lemma sum_list_indicator:
  "distinct ks \<Longrightarrow> k \<in> set ks \<Longrightarrow>
     sum_list (map (\<lambda>k'. if k = k' then (1::nat) else 0) ks) = 1"
  by (induction ks) auto

lemma group_sizes_sum:
  "distinct ks \<Longrightarrow> set (map f xs) \<subseteq> set ks \<Longrightarrow>
     sum_list (map (\<lambda>k. length (filter (\<lambda>r. f r = k) xs)) ks) = length xs"
proof (induction xs)
  case Nil
  then show ?case by simp
next
  case (Cons x xs)
  have split: "\<And>k. length (filter (\<lambda>r. f r = k) (x # xs))
                 = (if f x = k then 1 else 0) + length (filter (\<lambda>r. f r = k) xs)"
    by simp
  have "sum_list (map (\<lambda>k. length (filter (\<lambda>r. f r = k) (x # xs))) ks)
          = sum_list (map (\<lambda>k. if f x = k then (1::nat) else 0) ks)
            + sum_list (map (\<lambda>k. length (filter (\<lambda>r. f r = k) xs)) ks)"
    unfolding split by (simp add: sum_list_addf)
  also have "\<dots> = 1 + length xs"
    using Cons sum_list_indicator [of ks "f x"] by simp
  finally show ?case by simp
qed

lemma sum_list_map_insort_key:
  fixes g :: "'a \<Rightarrow> nat"
  shows "sum_list (map g (insort_key k x xs)) = g x + sum_list (map g xs)"
  by (induction xs) auto

lemma sum_list_map_sort_key:
  fixes g :: "'a \<Rightarrow> nat"
  shows "sum_list (map g (sort_key k xs)) = sum_list (map g xs)"
  by (induction xs) (auto simp add: sum_list_map_insort_key)

section \<open>Network relationships\<close>







text \<open>
  C7. The strength of an edge is HIGH iff its frequency is above 10, MEDIUM iff it is
  above 5 and at most 10, and LOW iff it is at most 5: 10 gives MEDIUM, 5 gives LOW and
  11 gives HIGH.
\<close>

theorem strength_tiers:
  "(strength f = ''HIGH'') = (f > 10)
   \<and> (strength f = ''MEDIUM'') = (5 < f \<and> f \<le> 10)
   \<and> (strength f = ''LOW'') = (f \<le> 5)
   \<and> strength 10 = ''MEDIUM'' \<and> strength 5 = ''LOW'' \<and> strength 11 = ''HIGH''
   \<and> rel_strength (relationshipOf db phone conn) = strength (frequency conn)"
  by (auto simp add: strength_def relationshipOf_def Let_def)

section \<open>Top communicators\<close>






section \<open>Dashboard and time windows\<close>

text \<open>
  C9. When no record is in the window of the dashboard, \<open>getDashboardStats\<close> answers
  with statistics, not an error: no records, no phone numbers, no addresses, a total
  volume of \<open>0 B\<close>, an empty breakdown by access type and no recent activity.
\<close>

theorem dashboard_empty:
  assumes "filter (\<lambda>r. createdAt r
             \<ge> startDateOf now (int (case dq of None \<Rightarrow> 30 | Some d \<Rightarrow> d))) db = []"
  shows "\<exists>stats. getDashboardStats db acts invs now dq = Inr stats
           \<and> ds_totalRecords stats = 0
           \<and> ds_uniquePhoneNumbers stats = 0
           \<and> ds_uniqueIPs stats = 0
           \<and> ds_totalDataVolume stats = ''0 B''
           \<and> ds_accessTypeBreakdown stats = []
           \<and> ds_recentActivity stats = []"
  using assms
  by (simp add: getDashboardStats_def Let_def groupAll_def firstSeenKeys_def
        formatDataVolume_def showInt_def showNat.simps)

text \<open>A store whose one record was ingested years before the window.\<close>

theorem dashboard_empty_witness:
  "filter (\<lambda>r. createdAt r
      \<ge> startDateOf 1800000000000 (int (case None of None \<Rightarrow> 30 | Some d \<Rightarrow> d)))
      [sampleSession 0 ''9000000001'' ''8.8.8.8'' 1700043200000 False] = []
   \<and> (\<exists>stats. getDashboardStats [sampleSession 0 ''9000000001'' ''8.8.8.8'' 1700043200000 False]
                 [] [] 1800000000000 None = Inr stats
         \<and> ds_totalRecords stats = 0
         \<and> ds_totalDataVolume stats = ''0 B''
         \<and> ds_accessTypeBreakdown stats = [])"
proof -
  have none: "filter (\<lambda>r. createdAt r
      \<ge> startDateOf 1800000000000 (int (case None of None \<Rightarrow> 30 | Some d \<Rightarrow> d)))
      [sampleSession 0 ''9000000001'' ''8.8.8.8'' 1700043200000 False] = []"
    by (simp add: startDateOf_def sampleSession_def)
  have "\<exists>stats. getDashboardStats [sampleSession 0 ''9000000001'' ''8.8.8.8'' 1700043200000 False]
                 [] [] 1800000000000 None = Inr stats
         \<and> ds_totalRecords stats = 0
         \<and> ds_totalDataVolume stats = ''0 B''
         \<and> ds_accessTypeBreakdown stats = []"
    using dashboard_empty [OF none, of "[]" "[]"] by blast
  with none show ?thesis by (intro conjI)
qed

lemma trend_counts_sum:
  "sum_list (map trend_count (getActivityTrends db now periodQ daysQ))
     = length (filter (\<lambda>r. startTime r
                 \<ge> startDateOf now (case daysQ of None \<Rightarrow> 30 | Some d \<Rightarrow> d)) db)"
proof -
  let ?start = "startDateOf now (case daysQ of None \<Rightarrow> 30 | Some d \<Rightarrow> d)"
  let ?matched = "filter (\<lambda>r. startTime r \<ge> ?start) db"
  let ?key = "\<lambda>r. groupBy (case periodQ of None \<Rightarrow> ''daily'' | Some p \<Rightarrow> p) (startTime r)"
  let ?keys = "firstSeenKeys (map ?key ?matched)"
  have "sum_list (map trend_count (getActivityTrends db now periodQ daysQ))
          = sum_list (map (\<lambda>k. length (filter (\<lambda>r. ?key r = k) ?matched)) ?keys)"
    by (simp add: getActivityTrends_def Let_def sum_list_map_sort_key trendOf_def comp_def)
  also have "\<dots> = length ?matched"
    by (rule group_sizes_sum) (simp_all add: firstSeenKeys_distinct firstSeenKeys_set)
  finally show ?thesis .
qed

lemma communicator_sessions_sum:
  "sum_list (map totalSessions (communicatorGroups db start))
     = length (filter (\<lambda>r. startTime r \<ge> start) db)"
proof -
  let ?matched = "filter (\<lambda>r. startTime r \<ge> start) db"
  have "sum_list (map totalSessions (communicatorGroups db start))
          = sum_list (map (\<lambda>k. length (filter (\<lambda>r. phoneNumber r = k) ?matched))
                          (firstSeenKeys (map phoneNumber ?matched)))"
    by (simp add: communicatorGroups_def Let_def communicatorOf_def comp_def)
  also have "\<dots> = length ?matched"
    by (rule group_sizes_sum) (simp_all add: firstSeenKeys_distinct firstSeenKeys_set)
  finally show ?thesis .
qed

lemma dashboard_total:
  "\<exists>stats. getDashboardStats db acts invs now q = Inr stats
      \<and> ds_totalRecords stats
          = length (filter (\<lambda>r. createdAt r
               \<ge> startDateOf now (int (case q of None \<Rightarrow> 30 | Some d \<Rightarrow> d))) db)"
  by (cases "filter (\<lambda>r. createdAt r
               \<ge> startDateOf now (int (case q of None \<Rightarrow> 30 | Some d \<Rightarrow> d))) db")
     (simp_all add: getDashboardStats_def Let_def groupAll_def elem0_def)

lemma dashboard_window_only:
  assumes eq: "filter (\<lambda>r. createdAt r \<ge> startDateOf now (int (case q of None \<Rightarrow> 30 | Some d \<Rightarrow> d))) db
     = filter (\<lambda>r. createdAt r \<ge> startDateOf now (int (case q of None \<Rightarrow> 30 | Some d \<Rightarrow> d))) db'"
  shows "getDashboardStats db acts invs now q = getDashboardStats db' acts invs now q"
  unfolding getDashboardStats_def Let_def eq by (rule refl)

lemma trends_window_only:
  assumes eq: "filter (\<lambda>r. startTime r \<ge> startDateOf now (case daysQ of None \<Rightarrow> 30 | Some d \<Rightarrow> d)) db
     = filter (\<lambda>r. startTime r \<ge> startDateOf now (case daysQ of None \<Rightarrow> 30 | Some d \<Rightarrow> d)) db'"
  shows "getActivityTrends db now periodQ daysQ = getActivityTrends db' now periodQ daysQ"
  unfolding getActivityTrends_def Let_def eq by (rule refl)

lemma top_window_only:
  assumes eq: "filter (\<lambda>r. startTime r \<ge> startDateOf now (parseIntOr daysQ 30)) db
     = filter (\<lambda>r. startTime r \<ge> startDateOf now (parseIntOr daysQ 30)) db'"
  shows "getTopCommunicators db now limitQ daysQ = getTopCommunicators db' now limitQ daysQ"
  unfolding getTopCommunicators_def communicatorGroups_def Let_def eq by (rule refl)

lemma window_days:
  "q \<noteq> Some 0 \<Longrightarrow>
     parseIntOr (map_option int q) 30 = int (case q of None \<Rightarrow> 30 | Some d \<Rightarrow> d)
     \<and> (case map_option int q of None \<Rightarrow> 30 | Some d \<Rightarrow> d)
         = int (case q of None \<Rightarrow> 30 | Some d \<Rightarrow> d)"
  by (cases q) (simp_all add: parseIntOr_def)

text \<open>
  C10. With the same number of days (30 when none is given), the dashboard counts the
  records whose ingestion time \<open>createdAt\<close> is in the window, while the trend buckets
  and the communicator aggregates count the records whose start time is in the window.
  Hence a record ingested inside the window whose session started before it adds one to
  the total of the dashboard and leaves the trends and the top communicators as they
  were; a record ingested before the window whose session starts inside it leaves the
  dashboard as it was and adds one to the counts of the trend buckets and to the session
  counts of the communicators.
\<close>

theorem windows_on_different_timestamps:
  assumes q: "q \<noteq> Some 0"
    and start: "start = startDateOf now (int (case q of None \<Rightarrow> 30 | Some d \<Rightarrow> d))"
  shows
    "(\<exists>stats. getDashboardStats db acts invs now q = Inr stats
        \<and> ds_totalRecords stats = length (filter (\<lambda>r. createdAt r \<ge> start) db))
     \<and> sum_list (map trend_count (getActivityTrends db now periodQ (map_option int q)))
         = length (filter (\<lambda>r. startTime r \<ge> start) db)
     \<and> sum_list (map totalSessions (communicatorGroups db start))
         = length (filter (\<lambda>r. startTime r \<ge> start) db)
     \<and> getTopCommunicators db now limitQ (map_option int q)
         = limitStage (parseIntOr limitQ 10)
             (sort_key (\<lambda>c. (- tc_riskScore c, - int (totalSessions c)))
                (communicatorGroups db start))
     \<and> (createdAt r \<ge> start \<and> startTime r < start \<longrightarrow>
          (\<exists>s s'. getDashboardStats db acts invs now q = Inr s
              \<and> getDashboardStats (r # db) acts invs now q = Inr s'
              \<and> ds_totalRecords s' = ds_totalRecords s + 1)
          \<and> getActivityTrends (r # db) now periodQ (map_option int q)
              = getActivityTrends db now periodQ (map_option int q)
          \<and> getTopCommunicators (r # db) now limitQ (map_option int q)
              = getTopCommunicators db now limitQ (map_option int q))
     \<and> (createdAt r < start \<and> startTime r \<ge> start \<longrightarrow>
          getDashboardStats (r # db) acts invs now q = getDashboardStats db acts invs now q
          \<and> sum_list (map trend_count (getActivityTrends (r # db) now periodQ (map_option int q)))
              = sum_list (map trend_count (getActivityTrends db now periodQ (map_option int q))) + 1
          \<and> sum_list (map totalSessions (communicatorGroups (r # db) start))
              = sum_list (map totalSessions (communicatorGroups db start)) + 1)"
proof -
  note wd = window_days [OF q]
  have c1: "\<exists>stats. getDashboardStats db acts invs now q = Inr stats
        \<and> ds_totalRecords stats = length (filter (\<lambda>r. createdAt r \<ge> start) db)"
    unfolding start by (rule dashboard_total)
  have tsum: "\<And>db. sum_list (map trend_count (getActivityTrends db now periodQ (map_option int q)))
         = length (filter (\<lambda>r. startTime r \<ge> start) db)"
    unfolding start using wd by (simp add: trend_counts_sum)
  have c3: "\<And>db. sum_list (map totalSessions (communicatorGroups db start))
         = length (filter (\<lambda>r. startTime r \<ge> start) db)"
    by (rule communicator_sessions_sum)
  have c4: "getTopCommunicators db now limitQ (map_option int q)
         = limitStage (parseIntOr limitQ 10)
             (sort_key (\<lambda>c. (- tc_riskScore c, - int (totalSessions c)))
                (communicatorGroups db start))"
    unfolding start using wd by (simp add: getTopCommunicators_def Let_def)
  have c5: "createdAt r \<ge> start \<and> startTime r < start \<longrightarrow>
          (\<exists>s s'. getDashboardStats db acts invs now q = Inr s
              \<and> getDashboardStats (r # db) acts invs now q = Inr s'
              \<and> ds_totalRecords s' = ds_totalRecords s + 1)
          \<and> getActivityTrends (r # db) now periodQ (map_option int q)
              = getActivityTrends db now periodQ (map_option int q)
          \<and> getTopCommunicators (r # db) now limitQ (map_option int q)
              = getTopCommunicators db now limitQ (map_option int q)"
  proof
    assume a: "createdAt r \<ge> start \<and> startTime r < start"
    obtain s where s: "getDashboardStats db acts invs now q = Inr s"
        "ds_totalRecords s = length (filter (\<lambda>r. createdAt r \<ge> start) db)"
      using dashboard_total [of db acts invs now q] unfolding start by blast
    obtain s' where s': "getDashboardStats (r # db) acts invs now q = Inr s'"
        "ds_totalRecords s' = length (filter (\<lambda>r. createdAt r \<ge> start) (r # db))"
      using dashboard_total [of "r # db" acts invs now q] unfolding start by blast
    have d: "ds_totalRecords s' = ds_totalRecords s + 1"
      using a s(2) s'(2) by simp
    have t: "getActivityTrends (r # db) now periodQ (map_option int q)
              = getActivityTrends db now periodQ (map_option int q)"
      by (rule trends_window_only) (use a wd in \<open>simp add: start\<close>)
    have c: "getTopCommunicators (r # db) now limitQ (map_option int q)
              = getTopCommunicators db now limitQ (map_option int q)"
      by (rule top_window_only) (use a wd in \<open>simp add: start\<close>)
    from s(1) s'(1) d t c
    show "(\<exists>s s'. getDashboardStats db acts invs now q = Inr s
              \<and> getDashboardStats (r # db) acts invs now q = Inr s'
              \<and> ds_totalRecords s' = ds_totalRecords s + 1)
          \<and> getActivityTrends (r # db) now periodQ (map_option int q)
              = getActivityTrends db now periodQ (map_option int q)
          \<and> getTopCommunicators (r # db) now limitQ (map_option int q)
              = getTopCommunicators db now limitQ (map_option int q)"
      by blast
  qed
  have c6: "createdAt r < start \<and> startTime r \<ge> start \<longrightarrow>
          getDashboardStats (r # db) acts invs now q = getDashboardStats db acts invs now q
          \<and> sum_list (map trend_count (getActivityTrends (r # db) now periodQ (map_option int q)))
              = sum_list (map trend_count (getActivityTrends db now periodQ (map_option int q))) + 1
          \<and> sum_list (map totalSessions (communicatorGroups (r # db) start))
              = sum_list (map totalSessions (communicatorGroups db start)) + 1"
  proof
    assume a: "createdAt r < start \<and> startTime r \<ge> start"
    have d: "getDashboardStats (r # db) acts invs now q = getDashboardStats db acts invs now q"
      by (rule dashboard_window_only) (use a in \<open>simp add: start\<close>)
    have t: "sum_list (map trend_count (getActivityTrends (r # db) now periodQ (map_option int q)))
              = sum_list (map trend_count (getActivityTrends db now periodQ (map_option int q))) + 1"
      unfolding tsum using a by simp
    have c: "sum_list (map totalSessions (communicatorGroups (r # db) start))
              = sum_list (map totalSessions (communicatorGroups db start)) + 1"
      unfolding c3 using a by simp
    from d t c
    show "getDashboardStats (r # db) acts invs now q = getDashboardStats db acts invs now q
          \<and> sum_list (map trend_count (getActivityTrends (r # db) now periodQ (map_option int q)))
              = sum_list (map trend_count (getActivityTrends db now periodQ (map_option int q))) + 1
          \<and> sum_list (map totalSessions (communicatorGroups (r # db) start))
              = sum_list (map totalSessions (communicatorGroups db start)) + 1"
      by blast
  qed
  from c1 tsum [of db] c3 [of db] c4 c5 c6 show ?thesis by blast
qed


text \<open>
  With the window starting at 1700045000000: a session that started half an hour before
  and was ingested half an hour after, and a session dated after the start of the
  window on a record ingested before it.
\<close>

theorem windows_on_different_timestamps_witness:
  "(None :: nat option) \<noteq> Some 0
   \<and> (1700045000000 :: int)
       = startDateOf 1702637000000 (int (case None of None \<Rightarrow> 30 | Some d \<Rightarrow> d))
   \<and> createdAt (sampleSession 8 ''9000000003'' ''8.8.8.8'' 1700043200000 False) \<ge> 1700045000000
   \<and> startTime (sampleSession 8 ''9000000003'' ''8.8.8.8'' 1700043200000 False) < 1700045000000
   \<and> getActivityTrends (sampleSession 8 ''9000000003'' ''8.8.8.8'' 1700043200000 False # rankStore)
        1702637000000 None (map_option int None)
       = getActivityTrends rankStore 1702637000000 None (map_option int None)
   \<and> createdAt ((sampleSession 9 ''9000000003'' ''8.8.8.8'' 1700050000000 False)
                  \<lparr>createdAt := 1700040000000\<rparr>) < 1700045000000
   \<and> startTime ((sampleSession 9 ''9000000003'' ''8.8.8.8'' 1700050000000 False)
                  \<lparr>createdAt := 1700040000000\<rparr>) \<ge> 1700045000000
   \<and> getDashboardStats ((sampleSession 9 ''9000000003'' ''8.8.8.8'' 1700050000000 False)
                           \<lparr>createdAt := 1700040000000\<rparr> # rankStore) [] [] 1702637000000 None
       = getDashboardStats rankStore [] [] 1702637000000 None"
proof -
  let ?early = "sampleSession 8 ''9000000003'' ''8.8.8.8'' 1700043200000 False"
  let ?late = "(sampleSession 9 ''9000000003'' ''8.8.8.8'' 1700050000000 False)
                 \<lparr>createdAt := 1700040000000\<rparr>"
  have q: "(None :: nat option) \<noteq> Some 0" by simp
  have start: "(1700045000000 :: int)
       = startDateOf 1702637000000 (int (case None of None \<Rightarrow> 30 | Some d \<Rightarrow> d))"
    by (simp add: startDateOf_def)
  have early: "createdAt ?early \<ge> 1700045000000 \<and> startTime ?early < 1700045000000"
    by (simp add: sampleSession_def)
  have late: "createdAt ?late < 1700045000000 \<and> startTime ?late \<ge> 1700045000000"
    by (simp add: sampleSession_def)
  have t: "getActivityTrends (?early # rankStore) 1702637000000 None (map_option int None)
             = getActivityTrends rankStore 1702637000000 None (map_option int None)"
    using windows_on_different_timestamps
            [OF q start, where r = ?early and db = rankStore and periodQ = None] early
    by blast
  have d: "getDashboardStats (?late # rankStore) [] [] 1702637000000 None
             = getDashboardStats rankStore [] [] 1702637000000 None"
    using windows_on_different_timestamps
            [OF q start, where r = ?late and db = rankStore and acts = "[]" and invs = "[]"] late
    by blast
  from q start early late t d show ?thesis by (intro conjI) blast+
qed

end
